theory Spec2Isabelle
  imports Complex_Main "HOL-Library.Sublist"
begin

section \<open>Huginn agent: data model\<close>

text \<open>
  The program is \<^verbatim>\<open>huginn_agent.py\<close>: a watchdog handler (\<^verbatim>\<open>TaskFileHandler.on_modified\<close>)
  reads the task file and hands its content to \<^verbatim>\<open>run_task\<close>, which invokes the agent and
  passes the answer to \<^verbatim>\<open>send_email\<close>.

  A Python \<^verbatim>\<open>str\<close> is a sequence of Unicode code points, so it is modelled as a list of
  code points: \<^verbatim>\<open>len\<close> is \<open>length\<close>, \<^verbatim>\<open>s[:n]\<close> is \<open>take n s\<close>, and the one-character
  strings U+2026 (ellipsis) and U+2013 (en dash) of the source are single elements.
\<close>

type_synonym pystr = "nat list"

definition py :: "string \<Rightarrow> pystr" where
  "py s = map of_char s"

definition ellipsis :: pystr where
  "ellipsis = [8230]"

definition en_dash :: pystr where
  "en_dash = [8211]"

definition newline :: pystr where
  "newline = [10]"

text \<open>
  Exceptions. The source distinguishes four classes in its \<^verbatim>\<open>except\<close> clauses:
  \<^verbatim>\<open>smtplib.SMTPException\<close> (a subclass of \<^verbatim>\<open>OSError\<close>), \<^verbatim>\<open>OSError\<close>, \<^verbatim>\<open>Exception\<close>, and
  what is left of \<^verbatim>\<open>BaseException\<close> (\<^verbatim>\<open>KeyboardInterrupt\<close>, \<^verbatim>\<open>SystemExit\<close>). An exception
  carries its most specific class among these and the text of \<^verbatim>\<open>str(exc)\<close>.
\<close>

datatype exn_class = SMTPException | OSError | Exception | BaseException

datatype exn = Exn (class_of: exn_class) (str_of: pystr)

fun issubclass :: "exn_class \<Rightarrow> exn_class \<Rightarrow> bool" where
  "issubclass c BaseException = True"
| "issubclass BaseException c = False"
| "issubclass c Exception = True"
| "issubclass Exception c = False"
| "issubclass c OSError = True"
| "issubclass OSError c = False"
| "issubclass SMTPException SMTPException = True"

definition isinstance :: "exn \<Rightarrow> exn_class \<Rightarrow> bool" where
  "isinstance e c = issubclass (class_of e) c"

text \<open>The module-level configuration constants, read once from the environment.\<close>

record config =
  TASKS_FILE :: pystr
  SMTP_HOST :: pystr
  SMTP_PORT :: int
  SMTP_USER :: pystr
  SMTP_PASSWORD :: pystr
  EMAIL_SENDER :: pystr
  EMAIL_RECIPIENT :: pystr

text \<open>
  The message \<^verbatim>\<open>send_email\<close> builds: a \<^verbatim>\<open>MIMEMultipart\<close> with three headers and the
  attached parts, each a \<^verbatim>\<open>MIMEText(text, subtype, charset)\<close>.
\<close>

record mime_message =
  msg_From :: pystr
  msg_To :: pystr
  msg_Subject :: pystr
  msg_parts :: "(pystr \<times> pystr \<times> pystr) list"

text \<open>
  A message of the agent's result: \<^verbatim>\<open>hasattr(m, "content")\<close> is \<open>content m \<noteq> None\<close>, and
  \<open>to_str m\<close> is \<^verbatim>\<open>str(m)\<close>.
\<close>

record message =
  content :: "pystr option"
  to_str :: pystr

datatype level = INFO | WARNING | ERROR

datatype smtp_step = Connect | Ehlo1 | Starttls | Ehlo2 | Login | Sendmail | Quit

text \<open>
  Everything the program does to the outside, in order: entering \<^verbatim>\<open>run_task\<close> and
  \<^verbatim>\<open>send_email\<close> with their arguments, log records (level, format, the \<^verbatim>\<open>%s\<close> arguments,
  \<^verbatim>\<open>exc_info\<close>), \<^verbatim>\<open>print\<close> calls, the read of the task file, the agent invocation (task
  text and \<^verbatim>\<open>recursion_limit\<close>), and the SMTP operations.
\<close>

datatype effect =
    Call_run_task pystr
  | Call_send_email pystr pystr
  | Log level pystr "pystr list" bool
  | Print pystr
  | Read_text pystr
  | Agent_invoke pystr nat
  | Smtp_connect pystr int nat
  | Smtp_ehlo
  | Smtp_starttls
  | Smtp_login pystr pystr
  | Smtp_sendmail pystr "pystr list" mime_message
  | Smtp_quit

text \<open>
  The collaborators the source calls inside \<^verbatim>\<open>try\<close> blocks or on the file system, with
  every outcome they can have: \<^verbatim>\<open>Path.resolve\<close>, \<^verbatim>\<open>TASKS_FILE.read_text\<close> (raises or
  returns the content), \<^verbatim>\<open>AGENT.invoke\<close> (raises or returns a dict), and the SMTP server
  (each operation of the session succeeds or raises). Building the message, logging and
  printing are taken to succeed, as the source takes them.
\<close>

record world =
  resolve :: "pystr \<Rightarrow> pystr"
  read_text :: "pystr \<Rightarrow> exn + pystr"
  AGENT_invoke :: "pystr \<Rightarrow> nat \<Rightarrow> exn + (string \<rightharpoonup> message list)"
  smtp :: "smtp_step \<Rightarrow> exn option"

section \<open>Strings\<close>

text \<open>
  \<^verbatim>\<open>str.strip()\<close> removes leading and trailing whitespace, which for \<^verbatim>\<open>str\<close> is the set
  of code points CPython's \<^verbatim>\<open>str.isspace\<close> accepts.
\<close>

definition isspace :: "nat \<Rightarrow> bool" where
  "isspace c \<longleftrightarrow>
     (9 \<le> c \<and> c \<le> 13) \<or> (28 \<le> c \<and> c \<le> 32) \<or> c = 133 \<or> c = 160 \<or> c = 5760 \<or>
     (8192 \<le> c \<and> c \<le> 8202) \<or> c = 8232 \<or> c = 8233 \<or> c = 8239 \<or> c = 8287 \<or>
     c = 12288"

definition strip :: "pystr \<Rightarrow> pystr" where
  "strip s = rev (dropWhile isspace (rev (dropWhile isspace s)))"

section \<open>send_email\<close>

text \<open>
  The body of the \<^verbatim>\<open>with smtplib.SMTP(...) as server:\<close> block: the operations in order;
  the first one that raises ends the block with its exception.
\<close>

fun smtp_ops :: "(smtp_step \<Rightarrow> exn option) \<Rightarrow> (smtp_step \<times> effect) list \<Rightarrow> effect list \<times> exn option" where
  "smtp_ops srv [] = ([], None)"
| "smtp_ops srv ((st, ef) # rest) =
     (case srv st of
        Some e \<Rightarrow> ([ef], Some e)
      | None \<Rightarrow> (let (tr, r) = smtp_ops srv rest in (ef # tr, r)))"

text \<open>
  The \<^verbatim>\<open>with\<close> statement: if the constructor raises, the block is not entered; otherwise
  the block runs and the connection is closed on every way out of it (\<^verbatim>\<open>__exit__\<close> sends
  QUIT), and an exception raised while closing replaces the block's.
\<close>

definition smtp_session :: "config \<Rightarrow> (smtp_step \<Rightarrow> exn option) \<Rightarrow> mime_message \<Rightarrow> effect list \<times> exn option" where
  "smtp_session cfg srv msg =
     (case srv Connect of
        Some e \<Rightarrow> ([Smtp_connect (SMTP_HOST cfg) (SMTP_PORT cfg) 30], Some e)
      | None \<Rightarrow>
          (let (tr, r) = smtp_ops srv
                 [(Ehlo1, Smtp_ehlo),
                  (Starttls, Smtp_starttls),
                  (Ehlo2, Smtp_ehlo),
                  (Login, Smtp_login (SMTP_USER cfg) (SMTP_PASSWORD cfg)),
                  (Sendmail, Smtp_sendmail (EMAIL_SENDER cfg) [EMAIL_RECIPIENT cfg] msg)]
           in (Smtp_connect (SMTP_HOST cfg) (SMTP_PORT cfg) 30 # tr @ [Smtp_quit],
               case srv Quit of Some e \<Rightarrow> Some e | None \<Rightarrow> r)))"

definition smtp_error_format :: pystr where
  "smtp_error_format = py ''SMTP error while sending email: %s''"

definition network_error_format :: pystr where
  "network_error_format = py ''Network error while sending email: %s''"

definition build_message :: "config \<Rightarrow> pystr \<Rightarrow> pystr \<Rightarrow> mime_message" where
  "build_message cfg subject body =
     \<lparr>msg_From = EMAIL_SENDER cfg, msg_To = EMAIL_RECIPIENT cfg, msg_Subject = subject,
      msg_parts = [(body, py ''plain'', py ''utf-8'')]\<rparr>"

definition send_email :: "config \<Rightarrow> world \<Rightarrow> pystr \<Rightarrow> pystr \<Rightarrow> effect list \<times> exn option" where
  "send_email cfg w subject body =
     (if SMTP_HOST cfg = [] then
        ([Call_send_email subject body,
          Log WARNING (py ''SMTP_HOST is not set '' @ en_dash @
                       py '' skipping email and printing the answer instead.'') [] False,
          Print (newline @ replicate 60 (of_char CHR ''='')),
          Print (py ''FINAL ANSWER''),
          Print (replicate 60 (of_char CHR ''='')),
          Print body,
          Print (replicate 60 (of_char CHR ''='') @ newline)], None)
      else
        (let msg = build_message cfg subject body;
             (tr, r) = smtp_session cfg (smtp w) msg
         in case r of
              None \<Rightarrow>
                (Call_send_email subject body # tr @
                 [Log INFO (py ''Email sent successfully to %s'') [EMAIL_RECIPIENT cfg] False], None)
            | Some exc \<Rightarrow>
                if isinstance exc SMTPException then
                  (Call_send_email subject body # tr @
                   [Log ERROR smtp_error_format [str_of exc] False], None)
                else if isinstance exc OSError then
                  (Call_send_email subject body # tr @
                   [Log ERROR network_error_format [str_of exc] False], None)
                else (Call_send_email subject body # tr, Some exc)))"

section \<open>run_task\<close>

text \<open>
  \<^verbatim>\<open>result["messages"][-1]\<close> is outside the \<^verbatim>\<open>try\<close>: a missing key or an empty list
  raises out of \<^verbatim>\<open>run_task\<close>.
\<close>

definition final_message_of :: "(string \<rightharpoonup> message list) \<Rightarrow> exn + message" where
  "final_message_of result =
     (case result ''messages'' of
        None \<Rightarrow> Inl (Exn Exception (py ''KeyError: messages''))
      | Some ms \<Rightarrow>
          (if ms = [] then Inl (Exn Exception (py ''IndexError: list index out of range''))
           else Inr (last ms)))"

definition run_task :: "config \<Rightarrow> world \<Rightarrow> pystr \<Rightarrow> effect list \<times> exn option" where
  "run_task cfg w task_text0 =
     (let task_text = strip task_text0 in
      if task_text = [] then
        ([Call_run_task task_text0,
          Log INFO (py ''tasks.txt is empty '' @ en_dash @ py '' nothing to do.'') [] False], None)
      else
        (let start = [Call_run_task task_text0,
                      Log INFO (py ''Starting agent for task:'' @ newline @ py ''  %s'')
                        [take 200 task_text] False,
                      Agent_invoke task_text 30]
         in case AGENT_invoke w task_text 30 of
              Inl exc \<Rightarrow>
                if isinstance exc Exception then
                  (start @ [Log ERROR (py ''Agent raised an unexpected error: %s'')
                              [str_of exc] True], None)
                else (start, Some exc)
            | Inr result \<Rightarrow>
                (case final_message_of result of
                   Inl exc \<Rightarrow> (start, Some exc)
                 | Inr final_message \<Rightarrow>
                     (let final_answer =
                            (case content final_message of
                               Some c \<Rightarrow> c
                             | None \<Rightarrow> to_str final_message);
                          short_task = take 60 task_text @
                            (if length task_text > 60 then ellipsis else []);
                          (tr, r) = send_email cfg w (py ''[Huginn] '' @ short_task) final_answer
                      in (start @
                          [Log INFO (py ''Agent finished. Dispatching answer '' @ ellipsis) [] False]
                          @ tr, r)))))"

section \<open>TaskFileHandler\<close>

text \<open>
  The handler object holds one field, the reading of \<^verbatim>\<open>time.monotonic()\<close> at the last
  handled event; clock readings are modelled as real numbers of seconds.
\<close>

record TaskFileHandler =
  last_modified :: real

definition TaskFileHandler_init :: TaskFileHandler where
  "TaskFileHandler_init = \<lparr>last_modified = 0\<rparr>"

record event =
  is_directory :: bool
  src_path :: pystr

text \<open>
  \<open>on_modified cfg w h ev now\<close>: the handler \<open>h\<close> receives \<open>ev\<close> in world \<open>w\<close>; \<open>now\<close> is
  what \<^verbatim>\<open>time.monotonic()\<close> returns once the two filters have passed. The result is the
  handler afterwards, the effects, and the exception that leaves the method, if any.
\<close>

definition on_modified :: "config \<Rightarrow> world \<Rightarrow> TaskFileHandler \<Rightarrow> event \<Rightarrow> real \<Rightarrow> TaskFileHandler \<times> effect list \<times> exn option" where
  "on_modified cfg w h ev now =
     (if is_directory ev then (h, [], None)
      else if resolve w (src_path ev) \<noteq> TASKS_FILE cfg then (h, [], None)
      else if now - last_modified h < 1 then (h, [], None)
      else
        (let h' = h\<lparr>last_modified := now\<rparr>;
             pre = [Log INFO (py ''Change detected in %s'') [TASKS_FILE cfg] False,
                    Read_text (TASKS_FILE cfg)]
         in case read_text w (TASKS_FILE cfg) of
              Inl exc \<Rightarrow>
                if isinstance exc OSError then
                  (h', pre @ [Log ERROR (py ''Could not read %s: %s'')
                                [TASKS_FILE cfg, str_of exc] False], None)
                else (h', pre, Some exc)
            | Inr file_content \<Rightarrow>
                (let (tr, r) = run_task cfg w file_content in (h', pre @ tr, r))))"

section \<open>Observations on traces\<close>

fun is_send_email_call :: "effect \<Rightarrow> bool" where
  "is_send_email_call (Call_send_email subject body) = True"
| "is_send_email_call e = False"

fun is_run_task_call :: "effect \<Rightarrow> bool" where
  "is_run_task_call (Call_run_task t) = True"
| "is_run_task_call e = False"

fun is_agent_invoke :: "effect \<Rightarrow> bool" where
  "is_agent_invoke (Agent_invoke t n) = True"
| "is_agent_invoke e = False"

fun is_print :: "effect \<Rightarrow> bool" where
  "is_print (Print s) = True"
| "is_print e = False"

fun is_read :: "effect \<Rightarrow> bool" where
  "is_read (Read_text p) = True"
| "is_read e = False"

fun is_smtp :: "effect \<Rightarrow> bool" where
  "is_smtp (Smtp_connect host port timeout) = True"
| "is_smtp Smtp_ehlo = True"
| "is_smtp Smtp_starttls = True"
| "is_smtp (Smtp_login u p) = True"
| "is_smtp (Smtp_sendmail s rs m) = True"
| "is_smtp Smtp_quit = True"
| "is_smtp e = False"

text \<open>What the \<^verbatim>\<open>print\<close> calls of a trace put on standard output: each argument and a newline.\<close>

fun printed :: "effect \<Rightarrow> pystr" where
  "printed (Print s) = s @ newline"
| "printed e = []"

definition stdout :: "effect list \<Rightarrow> pystr" where
  "stdout tr = concat (map printed tr)"

text \<open>
  A trigger is the handler going on to read the task file; \<open>triggers\<close> counts them in a
  trace.
\<close>

definition triggers :: "effect list \<Rightarrow> nat" where
  "triggers tr = length (filter is_read tr)"

section \<open>Successive notifications\<close>

text \<open>
  One call of \<^verbatim>\<open>on_modified\<close>: the event, the clock reading the call gets, and the world
  it runs in. \<open>dispatch\<close> calls the same handler object on each notification in turn.
\<close>

record notification =
  ev :: event
  clock :: real
  env :: world

definition qualifying :: "config \<Rightarrow> notification \<Rightarrow> bool" where
  "qualifying cfg n \<longleftrightarrow>
     \<not> is_directory (ev n) \<and> resolve (env n) (src_path (ev n)) = TASKS_FILE cfg"

fun dispatch :: "config \<Rightarrow> TaskFileHandler \<Rightarrow> notification list \<Rightarrow> TaskFileHandler \<times> effect list" where
  "dispatch cfg h [] = (h, [])"
| "dispatch cfg h (n # ns) =
     (let (h', tr, r) = on_modified cfg (env n) h (ev n) (clock n);
          (h'', tr') = dispatch cfg h' ns
      in (h'', tr @ tr'))"

text \<open>Each notification at least one second after the one before it, the first after \<open>t\<close>.\<close>

fun spaced :: "real \<Rightarrow> notification list \<Rightarrow> bool" where
  "spaced t [] = True"
| "spaced t (n # ns) = (\<not> clock n - t < 1 \<and> spaced (clock n) ns)"

section \<open>Sample values\<close>

definition console_config :: config where
  "console_config =
     \<lparr>TASKS_FILE = py ''/home/u/tasks.txt'', SMTP_HOST = [], SMTP_PORT = 587,
      SMTP_USER = [], SMTP_PASSWORD = [], EMAIL_SENDER = [], EMAIL_RECIPIENT = []\<rparr>"

definition smtp_config :: config where
  "smtp_config =
     \<lparr>TASKS_FILE = py ''/home/u/tasks.txt'', SMTP_HOST = py ''mail.example.org'',
      SMTP_PORT = 587, SMTP_USER = py ''huginn'', SMTP_PASSWORD = py ''secret'',
      EMAIL_SENDER = py ''huginn'', EMAIL_RECIPIENT = py ''odin@example.org''\<rparr>"

definition paris :: message where
  "paris = \<lparr>content = Some (py ''Paris.''), to_str = py ''content=Paris.''\<rparr>"

text \<open>
  A world where the task file holds a question, the agent answers it at once, and the SMTP
  server accepts everything.
\<close>

definition good_world :: world where
  "good_world =
     \<lparr>resolve = (\<lambda>p. p),
      read_text = (\<lambda>p. Inr (py ''What is the capital of France?'' @ newline)),
      AGENT_invoke = (\<lambda>t n. Inr [''messages'' \<mapsto> [paris]]),
      smtp = (\<lambda>st. None)\<rparr>"

text \<open>The same world with an agent that raises.\<close>

definition failing_agent_world :: world where
  "failing_agent_world =
     good_world\<lparr>AGENT_invoke := (\<lambda>t n. Inl (Exn Exception (py ''connection refused'')))\<rparr>"

text \<open>The same world with a server that rejects the login.\<close>

definition auth_failure_world :: world where
  "auth_failure_world =
     good_world\<lparr>smtp := (\<lambda>st. if st = Login
        then Some (Exn SMTPException (py ''(535, authentication failed)'')) else None)\<rparr>"

text \<open>The same world with a task file that cannot be read.\<close>

definition unreadable_world :: world where
  "unreadable_world =
     good_world\<lparr>read_text := (\<lambda>p. Inl (Exn OSError (py ''[Errno 13] Permission denied'')))\<rparr>"

text \<open>The same world with an empty task file.\<close>

definition empty_file_world :: world where
  "empty_file_world = good_world\<lparr>read_text := (\<lambda>p. Inr [])\<rparr>"

text \<open>A modification event for the task file in the good world, handled at clock reading \<open>t\<close>.\<close>

definition touch :: "real \<Rightarrow> notification" where
  "touch t = \<lparr>ev = \<lparr>is_directory = False, src_path = py ''/home/u/tasks.txt''\<rparr>,
              clock = t, env = good_world\<rparr>"

text \<open>
  A name for the part of \<^verbatim>\<open>on_modified\<close> that follows the \<^verbatim>\<open>read_text\<close> call: the
  handling of its exception, or \<^verbatim>\<open>run_task\<close> on the content.
\<close>

definition after_read :: "config \<Rightarrow> world \<Rightarrow> effect list \<times> exn option" where
  "after_read cfg w =
     (case read_text w (TASKS_FILE cfg) of
        Inl exc \<Rightarrow>
          if isinstance exc OSError then
            ([Log ERROR (py ''Could not read %s: %s'') [TASKS_FILE cfg, str_of exc] False], None)
          else ([], Some exc)
      | Inr file_content \<Rightarrow> run_task cfg w file_content)"

text \<open>
  Names for two expressions of \<^verbatim>\<open>run_task\<close>: the answer taken from the final message
  and the subject line made from the stripped task text.
\<close>

definition final_answer_of :: "message \<Rightarrow> pystr" where
  "final_answer_of m = (case content m of Some c \<Rightarrow> c | None \<Rightarrow> to_str m)"

definition subject_of :: "pystr \<Rightarrow> pystr" where
  "subject_of task_text =
     py ''[Huginn] '' @ take 60 task_text @ (if length task_text > 60 then ellipsis else [])"

definition long_task :: pystr where
  "long_task = py ''Summarise the state of the art in interactive theorem proving, please.''"

section \<open>Strings and the SMTP session: auxiliary facts\<close>

lemma dropWhile_all_iff: "(\<forall>x\<in>set (dropWhile P s). P x) \<longleftrightarrow> (\<forall>x\<in>set s. P x)"
proof
  assume L: "\<forall>x\<in>set (dropWhile P s). P x"
  have "dropWhile P s = []"
  proof (rule ccontr)
    assume ne: "dropWhile P s \<noteq> []"
    then have "\<not> P (hd (dropWhile P s))" by (rule hd_dropWhile)
    moreover from ne have "hd (dropWhile P s) \<in> set (dropWhile P s)" by simp
    ultimately show False using L by blast
  qed
  then show "\<forall>x\<in>set s. P x" by (simp add: dropWhile_eq_Nil_conv)
next
  assume "\<forall>x\<in>set s. P x"
  then show "\<forall>x\<in>set (dropWhile P s). P x" by (blast dest: set_dropWhileD)
qed

lemma strip_empty_iff: "strip s = [] \<longleftrightarrow> (\<forall>c\<in>set s. isspace c)"
  by (simp add: strip_def dropWhile_eq_Nil_conv dropWhile_all_iff)

lemma smtp_ops_effects:
  "smtp_ops srv steps = (tr, r) \<Longrightarrow> set tr \<subseteq> snd ` set steps"
proof (induction steps arbitrary: tr r)
  case Nil
  then show ?case by simp
next
  case (Cons p steps)
  obtain st ef where p: "p = (st, ef)" by (cases p)
  show ?case
  proof (cases "srv st")
    case None
    obtain tr' r' where rest: "smtp_ops srv steps = (tr', r')" by (cases "smtp_ops srv steps")
    with Cons.prems p None have "tr = ef # tr'" by simp
    moreover from Cons.IH [OF rest] have "set tr' \<subseteq> snd ` set steps" .
    ultimately show ?thesis using p by auto
  next
    case (Some e)
    with Cons.prems p show ?thesis by auto
  qed
qed

lemma smtp_ops_raised:
  "smtp_ops srv steps = (tr, Some e) \<Longrightarrow> \<exists>st. srv st = Some e"
proof (induction steps arbitrary: tr)
  case Nil
  then show ?case by simp
next
  case (Cons p steps)
  obtain st ef where p: "p = (st, ef)" by (cases p)
  show ?case
  proof (cases "srv st")
    case None
    obtain tr' r' where rest: "smtp_ops srv steps = (tr', r')" by (cases "smtp_ops srv steps")
    with Cons.prems p None have "r' = Some e" by simp
    with rest Cons.IH show ?thesis by blast
  next
    case (Some e')
    with Cons.prems p show ?thesis by auto
  qed
qed

lemma smtp_ops_failure:
  "(st, ef) \<in> set steps \<Longrightarrow> srv st \<noteq> None \<Longrightarrow> snd (smtp_ops srv steps) \<noteq> None"
proof (induction steps)
  case Nil
  then show ?case by simp
next
  case (Cons p steps)
  obtain st' ef' where p: "p = (st', ef')" by (cases p)
  show ?case
  proof (cases "srv st'")
    case None
    with Cons p have "(st, ef) \<in> set steps" by auto
    with Cons have "snd (smtp_ops srv steps) \<noteq> None" by simp
    with p None show ?thesis by (simp add: case_prod_beta)
  next
    case (Some e')
    with p show ?thesis by simp
  qed
qed

lemma smtp_session_effects:
  assumes "smtp_session cfg srv msg = (tr, r)"
  shows "list_all is_smtp tr"
    and "tr \<noteq> [] \<and> hd tr = Smtp_connect (SMTP_HOST cfg) (SMTP_PORT cfg) 30"
proof -
  let ?steps = "[(Ehlo1, Smtp_ehlo), (Starttls, Smtp_starttls), (Ehlo2, Smtp_ehlo),
      (Login, Smtp_login (SMTP_USER cfg) (SMTP_PASSWORD cfg)),
      (Sendmail, Smtp_sendmail (EMAIL_SENDER cfg) [EMAIL_RECIPIENT cfg] msg)]"
  obtain tr' r' where ops: "smtp_ops srv ?steps = (tr', r')" by (cases "smtp_ops srv ?steps")
  from smtp_ops_effects [OF ops] have "\<forall>e\<in>set tr'. is_smtp e" by auto
  then have all: "list_all is_smtp tr'" by (simp add: list_all_iff)
  show "list_all is_smtp tr"
    using assms ops all by (auto simp: smtp_session_def split: option.splits)
  show "tr \<noteq> [] \<and> hd tr = Smtp_connect (SMTP_HOST cfg) (SMTP_PORT cfg) 30"
    using assms ops by (auto simp: smtp_session_def split: option.splits)
qed

lemma smtp_session_raised:
  assumes "smtp_session cfg srv msg = (tr, Some e)"
  shows "\<exists>st. srv st = Some e"
proof -
  let ?steps = "[(Ehlo1, Smtp_ehlo), (Starttls, Smtp_starttls), (Ehlo2, Smtp_ehlo),
      (Login, Smtp_login (SMTP_USER cfg) (SMTP_PASSWORD cfg)),
      (Sendmail, Smtp_sendmail (EMAIL_SENDER cfg) [EMAIL_RECIPIENT cfg] msg)]"
  obtain tr' r' where ops: "smtp_ops srv ?steps = (tr', r')" by (cases "smtp_ops srv ?steps")
  show ?thesis
  proof (cases "srv Connect")
    case (Some e')
    with assms show ?thesis by (auto simp: smtp_session_def)
  next
    case None
    show ?thesis
    proof (cases "srv Quit")
      case (Some e')
      with assms None ops show ?thesis by (auto simp: smtp_session_def)
    next
      case Q: None
      with assms None ops have "r' = Some e" by (auto simp: smtp_session_def)
      with ops smtp_ops_raised show ?thesis by blast
    qed
  qed
qed

lemma smtp_session_failure:
  assumes "srv st \<noteq> None"
  shows "snd (smtp_session cfg srv msg) \<noteq> None"
proof (cases "srv Connect")
  case (Some e)
  then show ?thesis by (simp add: smtp_session_def)
next
  case None
  show ?thesis
  proof (cases "srv Quit")
    case (Some e)
    with None show ?thesis by (simp add: smtp_session_def case_prod_beta)
  next
    case Q: None
    let ?steps = "[(Ehlo1, Smtp_ehlo), (Starttls, Smtp_starttls), (Ehlo2, Smtp_ehlo),
      (Login, Smtp_login (SMTP_USER cfg) (SMTP_PASSWORD cfg)),
      (Sendmail, Smtp_sendmail (EMAIL_SENDER cfg) [EMAIL_RECIPIENT cfg] msg)]"
    from assms None Q have "st \<in> {Ehlo1, Starttls, Ehlo2, Login, Sendmail}"
      by (cases st) auto
    then have "\<exists>ef. (st, ef) \<in> set ?steps" by auto
    then obtain ef where "(st, ef) \<in> set ?steps" ..
    from smtp_ops_failure [of st ef ?steps srv] this assms None Q show ?thesis
      by (simp add: smtp_session_def case_prod_beta)
  qed
qed

section \<open>The delivery sink\<close>

lemma isinstance_SMTP_OSError: "isinstance e SMTPException \<Longrightarrow> isinstance e OSError"
  by (cases e; cases "class_of e") (auto simp: isinstance_def)

lemma send_email_console:
  "SMTP_HOST cfg = [] \<Longrightarrow> send_email cfg w subject body =
     ([Call_send_email subject body,
       Log WARNING (py ''SMTP_HOST is not set '' @ en_dash @
                    py '' skipping email and printing the answer instead.'') [] False,
       Print (newline @ replicate 60 (of_char CHR ''='')),
       Print (py ''FINAL ANSWER''),
       Print (replicate 60 (of_char CHR ''='')),
       Print body,
       Print (replicate 60 (of_char CHR ''='') @ newline)], None)"
  by (simp add: send_email_def)

lemma send_email_network:
  assumes "SMTP_HOST cfg \<noteq> []"
    and "smtp_session cfg (smtp w) (build_message cfg subject body) = (tr, r)"
  shows "send_email cfg w subject body =
     (Call_send_email subject body # tr @
        (case r of
           None \<Rightarrow> [Log INFO (py ''Email sent successfully to %s'') [EMAIL_RECIPIENT cfg] False]
         | Some exc \<Rightarrow>
             if isinstance exc SMTPException then [Log ERROR smtp_error_format [str_of exc] False]
             else if isinstance exc OSError then [Log ERROR network_error_format [str_of exc] False]
             else []),
      case r of None \<Rightarrow> None
      | Some exc \<Rightarrow> if isinstance exc OSError then None else Some exc)"
  using assms
  by (auto simp: send_email_def build_message_def Let_def isinstance_SMTP_OSError split: option.splits)

lemma smtp_not_others:
  "is_smtp e \<Longrightarrow> \<not> is_send_email_call e \<and> \<not> is_run_task_call e \<and> \<not> is_agent_invoke e
     \<and> \<not> is_print e \<and> \<not> is_read e"
  by (cases e) simp_all

lemma filter_smtp_trace:
  assumes "list_all is_smtp tr"
  shows "filter is_send_email_call tr = []" and "filter is_run_task_call tr = []"
    and "filter is_agent_invoke tr = []" and "filter is_print tr = []"
    and "filter is_read tr = []"
  using assms by (auto simp: filter_empty_conv list_all_iff dest: smtp_not_others)

lemma send_email_filters:
  "filter is_send_email_call (fst (send_email cfg w subject body)) = [Call_send_email subject body]"
  "filter is_run_task_call (fst (send_email cfg w subject body)) = []"
  "filter is_agent_invoke (fst (send_email cfg w subject body)) = []"
  "filter is_read (fst (send_email cfg w subject body)) = []"
proof -
  obtain tr r where s: "smtp_session cfg (smtp w) (build_message cfg subject body) = (tr, r)"
    by (cases "smtp_session cfg (smtp w) (build_message cfg subject body)")
  note f = filter_smtp_trace [OF smtp_session_effects(1) [OF s]]
  show "filter is_send_email_call (fst (send_email cfg w subject body)) = [Call_send_email subject body]"
    by (cases "SMTP_HOST cfg = []")
       (simp_all add: send_email_console send_email_network [OF _ s] f split: option.splits)
  show "filter is_run_task_call (fst (send_email cfg w subject body)) = []"
    by (cases "SMTP_HOST cfg = []")
       (simp_all add: send_email_console send_email_network [OF _ s] f split: option.splits)
  show "filter is_agent_invoke (fst (send_email cfg w subject body)) = []"
    by (cases "SMTP_HOST cfg = []")
       (simp_all add: send_email_console send_email_network [OF _ s] f split: option.splits)
  show "filter is_read (fst (send_email cfg w subject body)) = []"
    by (cases "SMTP_HOST cfg = []")
       (simp_all add: send_email_console send_email_network [OF _ s] f split: option.splits)
qed

text \<open>
  C6 (delivery selection). With an empty host \<^verbatim>\<open>send_email\<close> performs no SMTP operation
  and prints the answer block; with a non-empty host it performs SMTP operations, the first
  of them the connection to the configured host and port, and prints nothing. So a network
  delivery is attempted exactly when the host is non-empty.
\<close>
theorem delivery_selection:
  "(SMTP_HOST cfg = [] \<longrightarrow>
      filter is_smtp (fst (send_email cfg w subject body)) = [] \<and>
      filter is_print (fst (send_email cfg w subject body)) =
        [Print (newline @ replicate 60 (of_char CHR ''='')), Print (py ''FINAL ANSWER''),
         Print (replicate 60 (of_char CHR ''='')), Print body,
         Print (replicate 60 (of_char CHR ''='') @ newline)]) \<and>
   (SMTP_HOST cfg \<noteq> [] \<longrightarrow>
      hd (filter is_smtp (fst (send_email cfg w subject body))) =
        Smtp_connect (SMTP_HOST cfg) (SMTP_PORT cfg) 30 \<and>
      filter is_smtp (fst (send_email cfg w subject body)) \<noteq> [] \<and>
      filter is_print (fst (send_email cfg w subject body)) = [])"
proof (cases "SMTP_HOST cfg = []")
  case True
  then show ?thesis by (simp add: send_email_console)
next
  case False
  obtain tr r where s: "smtp_session cfg (smtp w) (build_message cfg subject body) = (tr, r)"
    by (cases "smtp_session cfg (smtp w) (build_message cfg subject body)")
  from smtp_session_effects [OF s]
  have all: "list_all is_smtp tr" and ne: "tr \<noteq> []"
    and h: "hd tr = Smtp_connect (SMTP_HOST cfg) (SMTP_PORT cfg) 30" by simp_all
  from all have fs: "filter is_smtp tr = tr" by (simp add: list_all_iff)
  from False show ?thesis
    by (simp add: send_email_network [OF False s] filter_smtp_trace(4) [OF all] fs ne h
        split: option.splits)
qed

theorem delivery_selection_witness:
  "filter is_smtp (fst (send_email console_config good_world (py ''s'') (py ''b''))) = [] \<and>
   filter is_print (fst (send_email smtp_config good_world (py ''s'') (py ''b''))) = [] \<and>
   hd (filter is_smtp (fst (send_email smtp_config good_world (py ''s'') (py ''b'')))) =
     Smtp_connect (py ''mail.example.org'') 587 30"
  using delivery_selection [of console_config good_world "py ''s''" "py ''b''"]
    delivery_selection [of smtp_config good_world "py ''s''" "py ''b''"]
  by (simp add: console_config_def smtp_config_def py_def)

text \<open>
  The console fallback and the subject: with subject \<open>Q\<close> and body \<open>Paris.\<close> the text
  on standard output does not contain the subject.
\<close>

theorem fallback_prints_subject_counterexample:
  "SMTP_HOST console_config = [] \<and>
   \<not> sublist (py ''Q'')
       (stdout (fst (send_email console_config good_world (py ''Q'') (py ''Paris.''))))"
proof -
  have "of_char CHR ''Q'' \<notin>
        set (stdout (fst (send_email console_config good_world (py ''Q'') (py ''Paris.''))))"
    by (simp add: send_email_def console_config_def stdout_def py_def newline_def en_dash_def)
  then have "\<not> sublist (py ''Q'')
       (stdout (fst (send_email console_config good_world (py ''Q'') (py ''Paris.''))))"
    by (auto simp: py_def dest: set_mono_sublist)
  then show ?thesis by (simp add: console_config_def)
qed

text \<open>
  C7 (local fallback content), as the code has it. With an empty host the text on standard
  output is a blank line, a rule of 60 equals signs, the heading \<^verbatim>\<open>FINAL ANSWER\<close>, a rule,
  the body, a rule and a blank line. It contains the body, and it is the same for every
  subject: the subject is not written.
\<close>

theorem fallback_prints_body:
  "SMTP_HOST cfg = [] \<Longrightarrow>
     stdout (fst (send_email cfg w subject body)) =
       newline @ replicate 60 (of_char CHR ''='') @ newline @
       py ''FINAL ANSWER'' @ newline @
       replicate 60 (of_char CHR ''='') @ newline @
       body @ newline @
       replicate 60 (of_char CHR ''='') @ newline @ newline \<and>
     sublist body (stdout (fst (send_email cfg w subject body))) \<and>
     stdout (fst (send_email cfg w subject' body)) = stdout (fst (send_email cfg w subject body))"
proof -
  assume h: "SMTP_HOST cfg = []"
  have eq: "\<And>s. stdout (fst (send_email cfg w s body)) =
       newline @ replicate 60 (of_char CHR ''='') @ newline @
       py ''FINAL ANSWER'' @ newline @
       replicate 60 (of_char CHR ''='') @ newline @
       body @ newline @
       replicate 60 (of_char CHR ''='') @ newline @ newline"
    using h by (simp add: send_email_console stdout_def)
  have "sublist body ((newline @ replicate 60 (of_char CHR ''='') @ newline @
       py ''FINAL ANSWER'' @ newline @
       replicate 60 (of_char CHR ''='') @ newline) @
       body @ (newline @
       replicate 60 (of_char CHR ''='') @ newline @ newline))"
    by (rule sublist_appendI)
  then show ?thesis by (simp add: eq)
qed

theorem fallback_prints_body_witness:
  "SMTP_HOST console_config = [] \<and>
   sublist (py ''Paris.'')
     (stdout (fst (send_email console_config good_world (py ''Q'') (py ''Paris.''))))"
proof -
  have h: "SMTP_HOST console_config = []" by (simp add: console_config_def)
  from fallback_prints_body [OF h, of good_world "py ''Q''" "py ''Paris.''" "py ''Q''"] h
  show ?thesis by blast
qed

text \<open>
  C8 (delivery-error containment). With a host configured and a server whose failures are
  all instances of \<^verbatim>\<open>OSError\<close> (which \<^verbatim>\<open>SMTPException\<close> is a subclass of),
  \<^verbatim>\<open>send_email\<close> returns normally; and if some operation fails, the last effect is an
  \<^verbatim>\<open>ERROR\<close> log record of an exception the server raised, with the SMTP format for an
  \<^verbatim>\<open>SMTPException\<close> and the network format otherwise, two different formats.
\<close>

theorem delivery_error_containment:
  assumes "SMTP_HOST cfg \<noteq> []"
    and "\<forall>st e. smtp w st = Some e \<longrightarrow> isinstance e OSError"
  shows "snd (send_email cfg w subject body) = None \<and>
         smtp_error_format \<noteq> network_error_format \<and>
         ((\<exists>st. smtp w st \<noteq> None) \<longrightarrow>
            (\<exists>st e. smtp w st = Some e \<and>
               last (fst (send_email cfg w subject body)) =
                 Log ERROR (if isinstance e SMTPException then smtp_error_format
                            else network_error_format) [str_of e] False))"
proof -
  obtain tr r where s: "smtp_session cfg (smtp w) (build_message cfg subject body) = (tr, r)"
    by (cases "smtp_session cfg (smtp w) (build_message cfg subject body)")
  note se = send_email_network [OF assms(1) s]
  have caught: "isinstance e OSError" if "r = Some e" for e
    using smtp_session_raised [of cfg "smtp w" _ tr e] s that assms(2) by blast
  have ret: "snd (send_email cfg w subject body) = None"
    using caught by (cases r) (simp_all add: se)
  have fmt: "smtp_error_format \<noteq> network_error_format"
    by (simp add: smtp_error_format_def network_error_format_def py_def)
  have logged: "\<exists>st e. smtp w st = Some e \<and>
               last (fst (send_email cfg w subject body)) =
                 Log ERROR (if isinstance e SMTPException then smtp_error_format
                            else network_error_format) [str_of e] False"
    if "smtp w st \<noteq> None" for st
  proof -
    from smtp_session_failure [of "smtp w" st cfg "build_message cfg subject body"] that s
    obtain e where r: "r = Some e" by auto
    with s smtp_session_raised obtain st' where "smtp w st' = Some e" by blast
    moreover from caught [OF r] have "isinstance e OSError" .
    ultimately show ?thesis using r by (auto simp: se)
  qed
  from ret fmt logged show ?thesis by blast
qed

theorem delivery_error_containment_witness:
  "SMTP_HOST smtp_config \<noteq> [] \<and>
   snd (send_email smtp_config auth_failure_world (py ''s'') (py ''b'')) = None \<and>
   (\<exists>st e. smtp auth_failure_world st = Some e \<and>
      last (fst (send_email smtp_config auth_failure_world (py ''s'') (py ''b''))) =
        Log ERROR (if isinstance e SMTPException then smtp_error_format
                   else network_error_format) [str_of e] False)"
proof -
  have h1: "SMTP_HOST smtp_config \<noteq> []" by (simp add: smtp_config_def py_def)
  have h2: "\<forall>st e. smtp auth_failure_world st = Some e \<longrightarrow> isinstance e OSError"
    by (simp add: auth_failure_world_def good_world_def isinstance_def)
  have h3: "\<exists>st. smtp auth_failure_world st \<noteq> None"
    by (rule exI [of _ Login]) (simp add: auth_failure_world_def good_world_def)
  from delivery_error_containment [OF h1 h2, of "py ''s''" "py ''b''"] h1 h3
  show ?thesis by blast
qed

section \<open>The task runner\<close>

lemma run_task_empty:
  "strip task = [] \<Longrightarrow> run_task cfg w task =
     ([Call_run_task task,
       Log INFO (py ''tasks.txt is empty '' @ en_dash @ py '' nothing to do.'') [] False], None)"
  by (simp add: run_task_def)

lemma run_task_raises:
  "strip task \<noteq> [] \<Longrightarrow> AGENT_invoke w (strip task) 30 = Inl exc \<Longrightarrow> run_task cfg w task =
     ([Call_run_task task,
       Log INFO (py ''Starting agent for task:'' @ newline @ py ''  %s'')
         [take 200 (strip task)] False,
       Agent_invoke (strip task) 30] @
      (if isinstance exc Exception
       then [Log ERROR (py ''Agent raised an unexpected error: %s'') [str_of exc] True]
       else []),
      if isinstance exc Exception then None else Some exc)"
  by (simp add: run_task_def Let_def)

lemma run_task_bad_result:
  "strip task \<noteq> [] \<Longrightarrow> AGENT_invoke w (strip task) 30 = Inr result \<Longrightarrow>
   final_message_of result = Inl exc \<Longrightarrow> run_task cfg w task =
     ([Call_run_task task,
       Log INFO (py ''Starting agent for task:'' @ newline @ py ''  %s'')
         [take 200 (strip task)] False,
       Agent_invoke (strip task) 30], Some exc)"
  by (simp add: run_task_def Let_def)

lemma run_task_answer:
  "strip task \<noteq> [] \<Longrightarrow> AGENT_invoke w (strip task) 30 = Inr result \<Longrightarrow>
   final_message_of result = Inr m \<Longrightarrow> run_task cfg w task =
     ([Call_run_task task,
       Log INFO (py ''Starting agent for task:'' @ newline @ py ''  %s'')
         [take 200 (strip task)] False,
       Agent_invoke (strip task) 30,
       Log INFO (py ''Agent finished. Dispatching answer '' @ ellipsis) [] False] @
      fst (send_email cfg w (subject_of (strip task)) (final_answer_of m)),
      snd (send_email cfg w (subject_of (strip task)) (final_answer_of m)))"
  by (simp add: run_task_def Let_def case_prod_beta final_answer_of_def subject_of_def)

lemma run_task_no_read: "filter is_read (fst (run_task cfg w task)) = []"
proof (cases "strip task = []")
  case True
  then show ?thesis by (simp add: run_task_empty)
next
  case False
  show ?thesis
  proof (cases "AGENT_invoke w (strip task) 30")
    case (Inl exc)
    with False show ?thesis by (simp add: run_task_raises)
  next
    case (Inr result)
    with False show ?thesis
      by (cases "final_message_of result")
         (simp_all add: run_task_bad_result run_task_answer send_email_filters)
  qed
qed

text \<open>
  C5 (empty-task no-op). When every character of the file content is whitespace (the empty
  content included), \<^verbatim>\<open>run_task\<close> logs that there is nothing to do and returns normally:
  the agent is not invoked and \<^verbatim>\<open>send_email\<close> is not called.
\<close>
theorem empty_task_noop:
  assumes "\<forall>c\<in>set task. isspace c"
  shows "run_task cfg w task =
           ([Call_run_task task,
             Log INFO (py ''tasks.txt is empty '' @ en_dash @ py '' nothing to do.'') [] False],
            None) \<and>
         filter is_agent_invoke (fst (run_task cfg w task)) = [] \<and>
         filter is_send_email_call (fst (run_task cfg w task)) = [] \<and>
         snd (run_task cfg w task) = None"
proof -
  from assms have "strip task = []" by (simp add: strip_empty_iff)
  then show ?thesis by (simp add: run_task_empty)
qed

theorem empty_task_noop_witness:
  "list_all isspace (py '' '' @ newline) \<and>
   filter is_agent_invoke (fst (run_task smtp_config good_world (py '' '' @ newline))) = [] \<and>
   filter is_send_email_call (fst (run_task smtp_config good_world (py '' '' @ newline))) = [] \<and>
   snd (run_task smtp_config good_world (py '' '' @ newline)) = None"
proof -
  have h: "\<forall>c\<in>set (py '' '' @ newline). isspace c"
    by (simp add: py_def newline_def isspace_def)
  from h have "list_all isspace (py '' '' @ newline)" by (simp only: list_all_iff)
  with empty_task_noop [OF h, of smtp_config good_world] show ?thesis by blast
qed

text \<open>
  The agent raising: with the task \<open>Why?\<close> and an agent that raises an \<^verbatim>\<open>Exception\<close>,
  \<^verbatim>\<open>run_task\<close> does not call \<^verbatim>\<open>send_email\<close>.
\<close>
theorem agent_failure_notice_counterexample:
  "strip (py ''Why?'') \<noteq> [] \<and>
   AGENT_invoke failing_agent_world (strip (py ''Why?'')) 30 =
     Inl (Exn Exception (py ''connection refused'')) \<and>
   filter is_send_email_call (fst (run_task console_config failing_agent_world (py ''Why?''))) = []"
  by (simp add: run_task_def failing_agent_world_def good_world_def strip_def py_def isspace_def
      isinstance_def Let_def)

text \<open>
  C1 (model-service errors), as the code has it. When the agent invocation raises an
  \<^verbatim>\<open>Exception\<close> on a non-empty task, \<^verbatim>\<open>run_task\<close> logs the error with its traceback and
  returns normally; \<^verbatim>\<open>send_email\<close> is not called, so no failure notice is delivered.
\<close>

theorem agent_failure_logged_not_delivered:
  assumes "strip task \<noteq> []"
    and "AGENT_invoke w (strip task) 30 = Inl exc"
    and "isinstance exc Exception"
  shows "run_task cfg w task =
           ([Call_run_task task,
             Log INFO (py ''Starting agent for task:'' @ newline @ py ''  %s'')
               [take 200 (strip task)] False,
             Agent_invoke (strip task) 30,
             Log ERROR (py ''Agent raised an unexpected error: %s'') [str_of exc] True],
            None) \<and>
         filter is_send_email_call (fst (run_task cfg w task)) = []"
  using assms by (simp add: run_task_raises)

theorem agent_failure_logged_not_delivered_witness:
  "strip (py ''Why?'') \<noteq> [] \<and>
   isinstance (Exn Exception (py ''connection refused'')) Exception \<and>
   snd (run_task smtp_config failing_agent_world (py ''Why?'')) = None \<and>
   filter is_send_email_call (fst (run_task smtp_config failing_agent_world (py ''Why?''))) = []"
proof -
  have h1: "strip (py ''Why?'') \<noteq> []" by (simp add: strip_def py_def isspace_def)
  have h2: "AGENT_invoke failing_agent_world (strip (py ''Why?'')) 30 =
     Inl (Exn Exception (py ''connection refused''))"
    by (simp add: failing_agent_world_def good_world_def)
  have h3: "isinstance (Exn Exception (py ''connection refused'')) Exception"
    by (simp add: isinstance_def)
  from agent_failure_logged_not_delivered [OF h1 h2 h3, of smtp_config] h1 h3
  show ?thesis by simp
qed

text \<open>
  C9 (subject derivation). For a task that is not empty after stripping and an agent that
  returns a final message, \<^verbatim>\<open>send_email\<close> is called once, with the subject
  \<^verbatim>\<open>[Huginn] \<close> followed by the first 60 characters of the stripped task, and the ellipsis
  exactly when the stripped task is longer than 60 characters; the subject has at most 70
  characters. The body is the content of the final message, or its \<^verbatim>\<open>str\<close> when it has
  no content.
\<close>
theorem subject_derivation:
  assumes "strip task \<noteq> []"
    and "AGENT_invoke w (strip task) 30 = Inr result"
    and "final_message_of result = Inr m"
  shows "filter is_send_email_call (fst (run_task cfg w task)) =
           [Call_send_email
              (py ''[Huginn] '' @ take 60 (strip task) @
                 (if length (strip task) > 60 then ellipsis else []))
              (case content m of Some c \<Rightarrow> c | None \<Rightarrow> to_str m)] \<and>
         length (py ''[Huginn] '' @ take 60 (strip task) @
                 (if length (strip task) > 60 then ellipsis else [])) \<le> 70"
proof -
  have "length (py ''[Huginn] '' @ take 60 (strip task) @
                 (if length (strip task) > 60 then ellipsis else [])) \<le> 70"
    by (simp add: py_def ellipsis_def)
  moreover have "filter is_send_email_call (fst (run_task cfg w task)) =
           [Call_send_email (subject_of (strip task)) (final_answer_of m)]"
    using assms by (simp add: run_task_answer send_email_filters)
  ultimately show ?thesis by (simp add: subject_of_def final_answer_of_def)
qed

theorem subject_derivation_witness:
  "strip long_task \<noteq> [] \<and>
   filter is_send_email_call (fst (run_task console_config good_world long_task)) =
     [Call_send_email
        (py ''[Huginn] Summarise the state of the art in interactive theorem provin'' @ ellipsis)
        (py ''Paris.'')]"
proof -
  have s: "strip long_task = long_task" by (simp add: strip_def long_task_def py_def isspace_def)
  have h1: "strip long_task \<noteq> []" by (simp add: s) (simp add: long_task_def py_def)
  have h2: "AGENT_invoke good_world (strip long_task) 30 = Inr [''messages'' \<mapsto> [paris]]"
    by (simp add: good_world_def)
  have h3: "final_message_of [''messages'' \<mapsto> [paris]] = Inr paris"
    by (simp add: final_message_of_def)
  have a: "final_answer_of paris = py ''Paris.''" by (simp add: final_answer_of_def paris_def)
  from subject_derivation [OF h1 h2 h3, of console_config] h1 show ?thesis
    by (simp add: s a [unfolded final_answer_of_def]) (simp add: long_task_def py_def)
qed

section \<open>The file handler\<close>

lemma on_modified_filtered:
  "is_directory evt \<or> resolve w (src_path evt) \<noteq> TASKS_FILE cfg \<Longrightarrow>
     on_modified cfg w h evt now = (h, [], None)"
  by (auto simp: on_modified_def)

lemma on_modified_discarded:
  "now - last_modified h < 1 \<Longrightarrow> on_modified cfg w h evt now = (h, [], None)"
  by (simp add: on_modified_def)

lemma on_modified_handled:
  assumes "\<not> is_directory evt" and "resolve w (src_path evt) = TASKS_FILE cfg"
    and "\<not> now - last_modified h < 1"
  shows "on_modified cfg w h evt now =
     (h\<lparr>last_modified := now\<rparr>,
      Log INFO (py ''Change detected in %s'') [TASKS_FILE cfg] False #
      Read_text (TASKS_FILE cfg) # fst (after_read cfg w),
      snd (after_read cfg w))"
  using assms
  by (simp add: on_modified_def after_read_def Let_def case_prod_beta split: sum.splits)

lemma after_read_no_read: "filter is_read (fst (after_read cfg w)) = []"
  by (simp add: after_read_def run_task_no_read split: sum.splits)

lemma on_modified_triggers:
  "triggers (fst (snd (on_modified cfg w h evt now))) =
     (if \<not> is_directory evt \<and> resolve w (src_path evt) = TASKS_FILE cfg \<and>
         \<not> now - last_modified h < 1 then 1 else 0)"
proof (cases "\<not> is_directory evt \<and> resolve w (src_path evt) = TASKS_FILE cfg \<and>
         \<not> now - last_modified h < 1")
  case True
  then show ?thesis by (simp add: on_modified_handled triggers_def after_read_no_read)
next
  case False
  then have "on_modified cfg w h evt now = (h, [], None)"
    using on_modified_filtered [of evt w cfg h now] on_modified_discarded [of now h cfg w evt]
    by blast
  with False show ?thesis by (simp add: triggers_def)
qed

lemma dispatch_discards:
  "\<forall>n\<in>set ns. clock n - last_modified h < 1 \<Longrightarrow> dispatch cfg h ns = (h, [])"
  by (induction ns) (simp_all add: on_modified_discarded)

lemma dispatch_Cons:
  "dispatch cfg h (n # ns) =
     (fst (dispatch cfg (fst (on_modified cfg (env n) h (ev n) (clock n))) ns),
      fst (snd (on_modified cfg (env n) h (ev n) (clock n))) @
      snd (dispatch cfg (fst (on_modified cfg (env n) h (ev n) (clock n))) ns))"
  by (simp add: case_prod_beta)

lemma triggers_append: "triggers (xs @ ys) = triggers xs + triggers ys"
  by (simp add: triggers_def)

lemma burst_one_trigger:
  assumes "qualifying cfg n" and "\<not> clock n - last_modified h < 1"
    and "\<forall>m\<in>set ns. clock m - clock n < 1"
  shows "triggers (snd (dispatch cfg h (n # ns))) = 1"
proof -
  from assms(1,2) have om: "on_modified cfg (env n) h (ev n) (clock n) =
     (h\<lparr>last_modified := clock n\<rparr>,
      Log INFO (py ''Change detected in %s'') [TASKS_FILE cfg] False #
      Read_text (TASKS_FILE cfg) # fst (after_read cfg (env n)),
      snd (after_read cfg (env n)))"
    by (simp add: qualifying_def on_modified_handled)
  from assms(3) have "dispatch cfg (h\<lparr>last_modified := clock n\<rparr>) ns =
      (h\<lparr>last_modified := clock n\<rparr>, [])"
    by (intro dispatch_discards) simp
  with om show ?thesis
    by (simp add: dispatch_Cons triggers_def after_read_no_read del: dispatch.simps)
qed

lemma spaced_triggers:
  "spaced (last_modified h) ns \<Longrightarrow> \<forall>n\<in>set ns. qualifying cfg n \<Longrightarrow>
     triggers (snd (dispatch cfg h ns)) = length ns"
proof (induction ns arbitrary: h)
  case Nil
  then show ?case by (simp add: triggers_def)
next
  case (Cons n ns)
  from Cons.prems have q: "qualifying cfg n" and far: "\<not> clock n - last_modified h < 1"
    and sp: "spaced (clock n) ns" and qs: "\<forall>m\<in>set ns. qualifying cfg m" by simp_all
  from q far have om: "on_modified cfg (env n) h (ev n) (clock n) =
     (h\<lparr>last_modified := clock n\<rparr>,
      Log INFO (py ''Change detected in %s'') [TASKS_FILE cfg] False #
      Read_text (TASKS_FILE cfg) # fst (after_read cfg (env n)),
      snd (after_read cfg (env n)))"
    by (simp add: qualifying_def on_modified_handled)
  from sp have "spaced (last_modified (h\<lparr>last_modified := clock n\<rparr>)) ns" by simp
  from Cons.IH [OF this qs]
  have "triggers (snd (dispatch cfg (h\<lparr>last_modified := clock n\<rparr>) ns)) = length ns" .
  with om show ?case
    by (simp add: dispatch_Cons triggers_append del: dispatch.simps)
       (simp add: triggers_def after_read_no_read)
qed

lemma on_modified_state:
  "fst (on_modified cfg w h evt now) =
     (if \<not> is_directory evt \<and> resolve w (src_path evt) = TASKS_FILE cfg \<and>
         \<not> now - last_modified h < 1 then h\<lparr>last_modified := now\<rparr> else h)"
  by (simp add: on_modified_def Let_def case_prod_beta split: sum.splits)

lemma touch_qualifying: "qualifying console_config (touch t)"
  by (simp add: qualifying_def touch_def console_config_def good_world_def)

lemma burst_at_most_one:
  "\<forall>a\<in>set ns. \<forall>b\<in>set ns. clock b - clock a < 1 \<Longrightarrow>
     triggers (snd (dispatch cfg h ns)) \<le> 1"
proof (induction ns arbitrary: h)
  case Nil
  then show ?case by (simp add: triggers_def)
next
  case (Cons n ns)
  let ?handled = "\<not> is_directory (ev n) \<and> resolve (env n) (src_path (ev n)) = TASKS_FILE cfg \<and>
         \<not> clock n - last_modified h < 1"
  show ?case
  proof (cases ?handled)
    case True
    then have s: "fst (on_modified cfg (env n) h (ev n) (clock n)) = h\<lparr>last_modified := clock n\<rparr>"
      by (simp add: on_modified_state)
    from Cons.prems have "\<forall>m\<in>set ns. clock m - last_modified (h\<lparr>last_modified := clock n\<rparr>) < 1"
      by simp
    then have "dispatch cfg (h\<lparr>last_modified := clock n\<rparr>) ns = (h\<lparr>last_modified := clock n\<rparr>, [])"
      by (rule dispatch_discards)
    moreover from True have "triggers (fst (snd (on_modified cfg (env n) h (ev n) (clock n)))) = 1"
      by (simp add: on_modified_triggers)
    moreover have "triggers [] = 0" by (simp add: triggers_def)
    ultimately show ?thesis using s
      by (simp add: dispatch_Cons triggers_append del: dispatch.simps)
  next
    case False
    then have s: "fst (on_modified cfg (env n) h (ev n) (clock n)) = h"
      by (simp add: on_modified_state)
    from Cons.prems have "\<forall>a\<in>set ns. \<forall>b\<in>set ns. clock b - clock a < 1" by simp
    from Cons.IH [OF this] have "triggers (snd (dispatch cfg h ns)) \<le> 1" .
    moreover from False have "triggers (fst (snd (on_modified cfg (env n) h (ev n) (clock n)))) = 0"
      by (simp only: on_modified_triggers if_False)
    ultimately show ?thesis using s
      by (simp add: dispatch_Cons triggers_append del: dispatch.simps)
  qed
qed

text \<open>
  C4 (filtering). For a directory event, or an event whose resolved source path is not the
  watched file, \<^verbatim>\<open>on_modified\<close> returns at once: the handler is unchanged (no timestamp
  update) and there is no effect at all, so no file read and no task execution.
\<close>

theorem filtering:
  assumes "is_directory evt \<or> resolve w (src_path evt) \<noteq> TASKS_FILE cfg"
  shows "on_modified cfg w h evt now = (h, [], None)"
  using assms by (rule on_modified_filtered)

theorem filtering_witness:
  "on_modified console_config good_world \<lparr>last_modified = 5\<rparr>
     \<lparr>is_directory = True, src_path = py ''/home/u''\<rparr> 100 = (\<lparr>last_modified = 5\<rparr>, [], None) \<and>
   resolve good_world (py ''/home/u/notes.txt'') \<noteq> TASKS_FILE console_config \<and>
   on_modified console_config good_world \<lparr>last_modified = 5\<rparr>
     \<lparr>is_directory = False, src_path = py ''/home/u/notes.txt''\<rparr> 100 =
     (\<lparr>last_modified = 5\<rparr>, [], None)"
proof -
  have h: "resolve good_world (py ''/home/u/notes.txt'') \<noteq> TASKS_FILE console_config"
    by (simp add: good_world_def console_config_def py_def)
  from filtering [of "\<lparr>is_directory = True, src_path = py ''/home/u''\<rparr>" good_world
      console_config "\<lparr>last_modified = 5\<rparr>" 100]
    filtering [of "\<lparr>is_directory = False, src_path = py ''/home/u/notes.txt''\<rparr>" good_world
      console_config "\<lparr>last_modified = 5\<rparr>" 100] h
  show ?thesis by simp
qed

text \<open>
  Three runs of the handler. A notification handled at clock reading 100 is followed by a
  burst at 100.25 and 100.5: the burst lies within one second and emits no trigger. A fresh
  handler receives a burst at clock readings 0.25 and 0.5: no trigger either. A notification
  that passes the debounce test while the file cannot be read: the file read is not followed
  by \<^verbatim>\<open>run_task\<close>.
\<close>

theorem debounce_burst_counterexample:
  "qualifying console_config (touch 100) \<and>
   qualifying console_config (touch 100.25) \<and> qualifying console_config (touch 100.5) \<and>
   clock (touch 100.5) - clock (touch 100.25) < 1 \<and>
   last_modified (fst (dispatch console_config TaskFileHandler_init [touch 100])) = 100 \<and>
   triggers (snd (dispatch console_config
      (fst (dispatch console_config TaskFileHandler_init [touch 100]))
      [touch 100.25, touch 100.5])) = 0 \<and>
   qualifying console_config (touch 0.25) \<and> qualifying console_config (touch 0.5) \<and>
   triggers (snd (dispatch console_config TaskFileHandler_init [touch 0.25, touch 0.5])) = 0 \<and>
   qualifying console_config ((touch 101)\<lparr>env := unreadable_world\<rparr>) \<and>
   \<not> clock (touch 101) - last_modified \<lparr>last_modified = 100\<rparr> < 1 \<and>
   filter is_run_task_call (fst (snd (on_modified console_config unreadable_world
       \<lparr>last_modified = 100\<rparr> (ev (touch 101)) 101))) = []"
proof -
  have c: "clock (touch t) = t" for t by (simp add: touch_def)
  have s: "fst (dispatch console_config TaskFileHandler_init [touch 100]) = \<lparr>last_modified = 100\<rparr>"
    using touch_qualifying [of 100]
    by (simp add: dispatch_Cons on_modified_state qualifying_def c TaskFileHandler_init_def
        del: dispatch.simps) simp
  have "dispatch console_config \<lparr>last_modified = 100\<rparr> [touch 100.25, touch 100.5] =
          (\<lparr>last_modified = 100\<rparr>, [])"
    by (rule dispatch_discards) (simp add: c)
  moreover have "dispatch console_config TaskFileHandler_init [touch 0.25, touch 0.5] =
          (TaskFileHandler_init, [])"
    by (rule dispatch_discards) (simp add: c TaskFileHandler_init_def)
  moreover have "qualifying console_config ((touch 101)\<lparr>env := unreadable_world\<rparr>)"
    by (simp add: qualifying_def touch_def unreadable_world_def good_world_def console_config_def)
  moreover have "filter is_run_task_call (fst (snd (on_modified console_config unreadable_world
       \<lparr>last_modified = 100\<rparr> (ev (touch 101)) 101))) = []"
    by (simp add: on_modified_def touch_def unreadable_world_def good_world_def
        console_config_def isinstance_def Let_def)
  ultimately show ?thesis using s by (simp add: touch_qualifying c triggers_def)
qed

text \<open>
  C3 (debounce), as the code has it. For a notification that passes the two filters: if
  \<open>now - last_modified h < 1\<close> it is discarded, the handler and the world untouched;
  otherwise the timestamp becomes \<open>now\<close> and exactly one trigger is emitted: the log record,
  the file read, and then \<^verbatim>\<open>run_task\<close> on the content when the read returns one (an error
  record when it raises an \<^verbatim>\<open>OSError\<close>). Hence a burst whose first notification is handled
  and whose other notifications come less than a second after it emits exactly one trigger;
  any burst within a one-second window emits at most one; and notifications each at least
  one second after the one before, the first at least one second after the last handled
  one, emit one trigger each.
\<close>
theorem debounce_triggers:
  assumes "\<not> is_directory evt" and "resolve w (src_path evt) = TASKS_FILE cfg"
  shows "(now - last_modified h < 1 \<longrightarrow> on_modified cfg w h evt now = (h, [], None)) \<and>
    (\<not> now - last_modified h < 1 \<longrightarrow>
       last_modified (fst (on_modified cfg w h evt now)) = now \<and>
       triggers (fst (snd (on_modified cfg w h evt now))) = 1 \<and>
       fst (snd (on_modified cfg w h evt now)) =
         Log INFO (py ''Change detected in %s'') [TASKS_FILE cfg] False #
         Read_text (TASKS_FILE cfg) #
         (case read_text w (TASKS_FILE cfg) of
            Inl exc \<Rightarrow>
              if isinstance exc OSError
              then [Log ERROR (py ''Could not read %s: %s'') [TASKS_FILE cfg, str_of exc] False]
              else []
          | Inr file_content \<Rightarrow> fst (run_task cfg w file_content))) \<and>
    (qualifying cfg n \<and> \<not> clock n - last_modified h < 1 \<and>
       (\<forall>m\<in>set burst. clock m - clock n < 1) \<longrightarrow>
       triggers (snd (dispatch cfg h (n # burst))) = 1) \<and>
    ((\<forall>a\<in>set burst. \<forall>b\<in>set burst. clock b - clock a < 1) \<longrightarrow>
       triggers (snd (dispatch cfg h burst)) \<le> 1) \<and>
    (spaced (last_modified h) ns \<and> (\<forall>m\<in>set ns. qualifying cfg m) \<longrightarrow>
       triggers (snd (dispatch cfg h ns)) = length ns)"
proof -
  have a: "now - last_modified h < 1 \<longrightarrow> on_modified cfg w h evt now = (h, [], None)"
    by (simp add: on_modified_discarded)
  have b: "\<not> now - last_modified h < 1 \<longrightarrow>
       last_modified (fst (on_modified cfg w h evt now)) = now \<and>
       triggers (fst (snd (on_modified cfg w h evt now))) = 1 \<and>
       fst (snd (on_modified cfg w h evt now)) =
         Log INFO (py ''Change detected in %s'') [TASKS_FILE cfg] False #
         Read_text (TASKS_FILE cfg) #
         (case read_text w (TASKS_FILE cfg) of
            Inl exc \<Rightarrow>
              if isinstance exc OSError
              then [Log ERROR (py ''Could not read %s: %s'') [TASKS_FILE cfg, str_of exc] False]
              else []
          | Inr file_content \<Rightarrow> fst (run_task cfg w file_content))"
    using assms
    by (simp add: on_modified_state on_modified_triggers)
       (simp add: on_modified_handled after_read_def split: sum.splits)
  have c: "qualifying cfg n \<and> \<not> clock n - last_modified h < 1 \<and>
       (\<forall>m\<in>set burst. clock m - clock n < 1) \<longrightarrow>
       triggers (snd (dispatch cfg h (n # burst))) = 1"
    using burst_one_trigger by blast
  have d: "spaced (last_modified h) ns \<and> (\<forall>m\<in>set ns. qualifying cfg m) \<longrightarrow>
       triggers (snd (dispatch cfg h ns)) = length ns"
    using spaced_triggers by blast
  have e: "(\<forall>a\<in>set burst. \<forall>b\<in>set burst. clock b - clock a < 1) \<longrightarrow>
       triggers (snd (dispatch cfg h burst)) \<le> 1"
    using burst_at_most_one by blast
  from a b c d e show ?thesis by blast
qed

theorem debounce_triggers_witness:
  "on_modified console_config good_world \<lparr>last_modified = 100\<rparr> (ev (touch 100.5)) 100.5 =
     (\<lparr>last_modified = 100\<rparr>, [], None) \<and>
   last_modified (fst (on_modified console_config good_world \<lparr>last_modified = 100\<rparr>
     (ev (touch 101)) 101)) = 101 \<and>
   triggers (fst (snd (on_modified console_config good_world \<lparr>last_modified = 100\<rparr>
     (ev (touch 101)) 101))) = 1 \<and>
   triggers (snd (dispatch console_config \<lparr>last_modified = 100\<rparr>
     [touch 101, touch 101.25, touch 101.5])) = 1 \<and>
   triggers (snd (dispatch console_config \<lparr>last_modified = 100\<rparr>
     [touch 101.25, touch 101.5])) \<le> 1 \<and>
   triggers (snd (dispatch console_config \<lparr>last_modified = 100\<rparr>
     [touch 101, touch 102, touch 103.5])) = 3"
proof -
  have q1: "\<not> is_directory (ev (touch t))" for t by (simp add: touch_def)
  have q2: "resolve good_world (src_path (ev (touch t))) = TASKS_FILE console_config" for t
    by (simp add: touch_def good_world_def console_config_def)
  have c: "clock (touch t) = t" for t by (simp add: touch_def)
  have burst: "\<not> clock (touch 101) - last_modified \<lparr>last_modified = 100\<rparr> < 1 \<and>
     (\<forall>m\<in>set [touch 101.25, touch 101.5]. clock m - clock (touch 101) < 1)"
    by (simp add: c)
  have win: "\<forall>a\<in>set [touch 101.25, touch 101.5].
     \<forall>b\<in>set [touch 101.25, touch 101.5]. clock b - clock a < 1"
    by (simp add: c)
  have sp: "spaced (last_modified \<lparr>last_modified = 100\<rparr>) [touch 101, touch 102, touch 103.5]"
    by (simp add: c)
  have qs: "\<forall>m\<in>set [touch 101, touch 102, touch 103.5]. qualifying console_config m"
    by (simp add: touch_qualifying)
  note d1 = debounce_triggers [where evt = "ev (touch 100.5)" and w = good_world
      and cfg = console_config and now = "100.5" and h = "\<lparr>last_modified = 100\<rparr>"
      and n = "touch 101" and burst = "[touch 101.25, touch 101.5]"
      and ns = "[touch 101, touch 102, touch 103.5]", OF q1 q2]
  note d2 = debounce_triggers [where evt = "ev (touch 101)" and w = good_world
      and cfg = console_config and now = "101" and h = "\<lparr>last_modified = 100\<rparr>"
      and n = "touch 101" and burst = "[touch 101.25, touch 101.5]"
      and ns = "[touch 101, touch 102, touch 103.5]", OF q1 q2]
  have near: "(100.5::real) - last_modified \<lparr>last_modified = 100\<rparr> < 1" by simp
  have far: "\<not> (101::real) - last_modified \<lparr>last_modified = 100\<rparr> < 1" by simp
  from d1 near d2 far burst win sp qs touch_qualifying [of 101]
  have "on_modified console_config good_world \<lparr>last_modified = 100\<rparr> (ev (touch 100.5)) 100.5 =
     (\<lparr>last_modified = 100\<rparr>, [], None) \<and>
   last_modified (fst (on_modified console_config good_world \<lparr>last_modified = 100\<rparr>
     (ev (touch 101)) 101)) = 101 \<and>
   triggers (fst (snd (on_modified console_config good_world \<lparr>last_modified = 100\<rparr>
     (ev (touch 101)) 101))) = 1 \<and>
   triggers (snd (dispatch console_config \<lparr>last_modified = 100\<rparr>
     [touch 101, touch 101.25, touch 101.5])) = 1 \<and>
   triggers (snd (dispatch console_config \<lparr>last_modified = 100\<rparr>
     [touch 101.25, touch 101.5])) \<le> 1 \<and>
   triggers (snd (dispatch console_config \<lparr>last_modified = 100\<rparr>
     [touch 101, touch 102, touch 103.5])) = length [touch 101, touch 102, touch 103.5]"
    by blast
  then show ?thesis by simp
qed

text \<open>
  C10 (the debounce window is consumed). A notification that passes the filters and the
  debounce test leaves the handler with the timestamp \<open>now\<close>, whatever the file read
  returns or raises and whatever \<^verbatim>\<open>run_task\<close> does afterwards: the timestamp is written
  before the read. All notifications that follow with a clock reading less than one second
  after \<open>now\<close> are then discarded: no effect, and the handler unchanged.
\<close>
theorem debounce_window_consumed:
  assumes "\<not> is_directory evt" and "resolve w (src_path evt) = TASKS_FILE cfg"
    and "\<not> now - last_modified h < 1"
  shows "last_modified (fst (on_modified cfg w h evt now)) = now \<and>
         ((\<forall>n\<in>set ns. clock n - now < 1) \<longrightarrow>
            dispatch cfg (fst (on_modified cfg w h evt now)) ns =
              (fst (on_modified cfg w h evt now), []))"
proof -
  from assms have s: "fst (on_modified cfg w h evt now) = h\<lparr>last_modified := now\<rparr>"
    by (simp add: on_modified_state)
  have "dispatch cfg (h\<lparr>last_modified := now\<rparr>) ns = (h\<lparr>last_modified := now\<rparr>, [])"
    if "\<forall>n\<in>set ns. clock n - now < 1"
    by (rule dispatch_discards) (simp add: that)
  with s show ?thesis by simp
qed

theorem debounce_window_consumed_witness:
  "read_text unreadable_world (TASKS_FILE console_config) =
     Inl (Exn OSError (py ''[Errno 13] Permission denied'')) \<and>
   dispatch console_config
     (fst (on_modified console_config unreadable_world \<lparr>last_modified = 100\<rparr> (ev (touch 101)) 101))
     [touch 101.5, touch 101.75] = (\<lparr>last_modified = 101\<rparr>, []) \<and>
   read_text empty_file_world (TASKS_FILE console_config) = Inr [] \<and>
   dispatch console_config
     (fst (on_modified console_config empty_file_world \<lparr>last_modified = 100\<rparr> (ev (touch 101)) 101))
     [touch 101.5, touch 101.75] = (\<lparr>last_modified = 101\<rparr>, [])"
proof -
  have q1: "\<not> is_directory (ev (touch 101))" by (simp add: touch_def)
  have q2: "resolve unreadable_world (src_path (ev (touch 101))) = TASKS_FILE console_config"
    by (simp add: touch_def unreadable_world_def good_world_def console_config_def)
  have q2': "resolve empty_file_world (src_path (ev (touch 101))) = TASKS_FILE console_config"
    by (simp add: touch_def empty_file_world_def good_world_def console_config_def)
  have q3: "\<not> (101::real) - last_modified \<lparr>last_modified = 100\<rparr> < 1" by simp
  have w: "\<forall>n\<in>set [touch 101.5, touch 101.75]. clock n - 101 < 1" by (simp add: touch_def)
  have r1: "read_text unreadable_world (TASKS_FILE console_config) =
     Inl (Exn OSError (py ''[Errno 13] Permission denied''))"
    by (simp add: unreadable_world_def good_world_def)
  have r2: "read_text empty_file_world (TASKS_FILE console_config) = Inr []"
    by (simp add: empty_file_world_def good_world_def)
  have e: "h = \<lparr>last_modified = last_modified h\<rparr>" for h :: TaskFileHandler by simp
  from debounce_window_consumed [OF q1 q2 q3, where ns = "[touch 101.5, touch 101.75]"]
    debounce_window_consumed [OF q1 q2' q3, where ns = "[touch 101.5, touch 101.75]"] w r1 r2
  show ?thesis by (metis e)
qed

end
